theory Spec2Isabelle
  imports Main
begin

section \<open>mock-helper: the privileged helper of mock\<close>

text \<open>
  A shallow embedding of \<^verbatim>\<open>src/mock-helper.c\<close>. A C string is the list of its bytes
  before the terminating NUL. Every call of \<^verbatim>\<open>error ()\<close> (print and \<^verbatim>\<open>exit (1)\<close>)
  is a value of type \<open>error\<close>; a read the C standard leaves undefined is a value of
  type \<open>fault\<close>. The system calls a command makes are collected in order.
\<close>

subsection \<open>The C library's string functions\<close>

definition NUL :: char where
  "NUL = CHR 0x00"

text \<open>\<^verbatim>\<open>strncmp (s1, s2, n)\<close>: compares at most \<open>n\<close> bytes and stops at the terminator.\<close>

fun strncmp :: "string \<Rightarrow> string \<Rightarrow> nat \<Rightarrow> int" where
  "strncmp s1 s2 0 = 0"
| "strncmp [] [] (Suc n) = 0"
| "strncmp [] (y # ys) (Suc n) = - of_char y"
| "strncmp (x # xs) [] (Suc n) = of_char x"
| "strncmp (x # xs) (y # ys) (Suc n) =
     (if x = y then strncmp xs ys n else of_char x - of_char y)"

text \<open>\<^verbatim>\<open>strstr (haystack, needle) != 0\<close>: the needle occurs somewhere in the haystack.\<close>

fun strstr :: "string \<Rightarrow> string \<Rightarrow> bool" where
  "strstr [] needle = (needle = [])"
| "strstr (c # cs) needle = (take (length needle) (c # cs) = needle \<or> strstr cs needle)"

text \<open>Subtraction on \<^verbatim>\<open>size_t\<close> (64 bits): \<^verbatim>\<open>strlen (given) - 1\<close> wraps at the empty string.\<close>

definition size_t_sub :: "nat \<Rightarrow> nat \<Rightarrow> nat" where
  "size_t_sub a b = (if b \<le> a then a - b else a + 2 ^ 64 - b)"

subsection \<open>Outcomes\<close>

datatype error =
    OutsideRoot           \<comment> \<open>\<^verbatim>\<open>"%s: not under allowed directory"\<close>\<close>
  | TraversalAttempt      \<comment> \<open>\<^verbatim>\<open>"%s: contains '..'"\<close>\<close>
  | TrailingSeparator     \<comment> \<open>\<^verbatim>\<open>"%s: ends with '/'"\<close>\<close>
  | LookupFailed          \<comment> \<open>\<^verbatim>\<open>lstat\<close> failed\<close>
  | IsSymlink             \<comment> \<open>\<^verbatim>\<open>"%s: symbolic link"\<close>\<close>
  | NotADirectory         \<comment> \<open>\<^verbatim>\<open>"%s: not a directory"\<close>\<close>
  | NotARegularFile       \<comment> \<open>\<^verbatim>\<open>"%s: not a regular file"\<close>\<close>
  | ArgumentCountError    \<comment> \<open>\<^verbatim>\<open>"not enough arguments"\<close> and its variants\<close>
  | UnrecognizedOption    \<comment> \<open>\<^verbatim>\<open>"%s: options not allowed"\<close>\<close>
  | UnallowedMountType    \<comment> \<open>\<^verbatim>\<open>"unallowed mount type"\<close>\<close>
  | MountNotAllowed       \<comment> \<open>\<^verbatim>\<open>"proc: mount not allowed on %s"\<close> and its variants\<close>
  | ChdirFailed           \<comment> \<open>\<^verbatim>\<open>"could not change dir"\<close>\<close>
  | ExecFailed            \<comment> \<open>\<^verbatim>\<open>"executing %s: %s"\<close>\<close>
  | MallocFailed          \<comment> \<open>\<^verbatim>\<open>"malloc (%lu): %s"\<close>\<close>
  | OpendirFailed         \<comment> \<open>\<^verbatim>\<open>"opendir (\"/proc\"): %s"\<close>\<close>
  | OwnPid                \<comment> \<open>\<^verbatim>\<open>"We as PID %d should not be chrooted"\<close>\<close>
  | Usage                 \<comment> \<open>\<^verbatim>\<open>usage ()\<close>\<close>
  | UnrecognizedCommand   \<comment> \<open>\<^verbatim>\<open>"Command %s not recognized !"\<close>\<close>

datatype fault =
    OutOfBoundsRead       \<comment> \<open>a read past an array that finds no mapped byte\<close>
  | OutOfBoundsWrite      \<comment> \<open>a store past the end of an array\<close>
  | NullDereference       \<comment> \<open>a string function called on the null pointer\<close>
  | UnterminatedVector    \<comment> \<open>a vector handed to \<^verbatim>\<open>execve\<close> without its null entry\<close>

datatype failure = Exit error | Undefined fault

subsection \<open>The build and the world\<close>

text \<open>
  \<^verbatim>\<open>ROOTSDIR\<close> and \<^verbatim>\<open>USE_SELINUX\<close> come from \<^verbatim>\<open>config.h\<close>, which is not part of the
  source file: they are parameters. \<open>after_rootsdir\<close> is the memory that follows the
  terminator of the string \<^verbatim>\<open>rootsdir\<close> points to (\<open>None\<close>: no readable byte there);
  the C standard gives a read there no meaning, the linker decides what it finds.
\<close>

record build =
  rootsdir :: string
  USE_SELINUX :: bool
  after_rootsdir :: "nat \<Rightarrow> char option"

datatype file_kind = Symlink | Directory | Regular | Other_kind

record dirent =
  d_is_dir :: bool        \<comment> \<open>\<^verbatim>\<open>d_type == DT_DIR\<close>\<close>
  d_name :: string

text \<open>What the operating system and the C library answer during one invocation.\<close>

record world =
  lstat :: "string \<Rightarrow> file_kind option"      \<comment> \<open>\<open>None\<close>: \<^verbatim>\<open>lstat\<close> returned non-zero\<close>
  chdir_ok :: "string \<Rightarrow> bool"
  environ :: "string list"                   \<comment> \<open>the caller's \<^verbatim>\<open>NAME=value\<close> strings\<close>
  is_selinux_enabled :: int
  execve_ok :: "string \<Rightarrow> bool"               \<comment> \<open>\<^verbatim>\<open>execve\<close> replaces the process image\<close>
  getgrnam :: "string \<Rightarrow> nat option"          \<comment> \<open>the group's \<^verbatim>\<open>gr_gid\<close>\<close>
  malloc_ok :: bool
  proc_entries :: "dirent list option"       \<comment> \<open>what \<^verbatim>\<open>readdir\<close> yields on \<^verbatim>\<open>/proc\<close>; \<open>None\<close>: \<^verbatim>\<open>opendir\<close> failed\<close>
  atoi :: "string \<Rightarrow> int"
  readlink :: "string \<Rightarrow> string option"       \<comment> \<open>the whole target of a symbolic link; \<open>None\<close>: error\<close>
  getpid :: int

subsection \<open>Path checks\<close>

text \<open>\<^verbatim>\<open>rootsdir[i]\<close>: a byte of the string, its terminator, or what memory holds after it.\<close>

definition rootsdir_at :: "build \<Rightarrow> nat \<Rightarrow> char option" where
  "rootsdir_at b i =
     (if i < length (rootsdir b) then Some (rootsdir b ! i)
      else if i = length (rootsdir b) then Some NUL
      else after_rootsdir b (i - length (rootsdir b) - 1))"

definition check_allowed :: "build \<Rightarrow> string \<Rightarrow> failure + unit" where
  "check_allowed b given =
     (if strncmp given (rootsdir b) (length (rootsdir b)) \<noteq> 0 then Inl (Exit OutsideRoot)
      else if strstr given ''..'' then Inl (Exit TraversalAttempt)
      else (case rootsdir_at b (size_t_sub (length given) 1) of
              None \<Rightarrow> Inl (Undefined OutOfBoundsRead)
            | Some last_c \<Rightarrow>
                if last_c = CHR ''/'' then Inl (Exit TrailingSeparator) else Inr ()))"

definition check_dir_allowed :: "build \<Rightarrow> world \<Rightarrow> string \<Rightarrow> failure + unit" where
  "check_dir_allowed b w given =
     (case check_allowed b given of
        Inl f \<Rightarrow> Inl f
      | Inr _ \<Rightarrow>
          (case lstat w given of
             None \<Rightarrow> Inl (Exit LookupFailed)
           | Some k \<Rightarrow>
               if k = Symlink then Inl (Exit IsSymlink)
               else if k \<noteq> Directory then Inl (Exit NotADirectory)
               else Inr ()))"

definition check_file_allowed :: "build \<Rightarrow> world \<Rightarrow> string \<Rightarrow> failure + unit" where
  "check_file_allowed b w given =
     (case check_allowed b given of
        Inl f \<Rightarrow> Inl f
      | Inr _ \<Rightarrow>
          (case lstat w given of
             None \<Rightarrow> Inl (Exit LookupFailed)
           | Some k \<Rightarrow>
               if k = Symlink then Inl (Exit IsSymlink)
               else if k \<noteq> Regular then Inl (Exit NotARegularFile)
               else Inr ()))"

subsection \<open>The sanitised environment and the executor\<close>

definition ALLOWED_ENV :: "string list" where
  "ALLOWED_ENV = [''dist'', ''ftp_proxy'', ''http_proxy'', ''https_proxy'', ''no_proxy'', ''PS1'']"

definition ALLOWED_ENV_SIZE :: nat where
  "ALLOWED_ENV_SIZE = length ALLOWED_ENV"

text \<open>
  \<^verbatim>\<open>getenv (name)\<close> finds the first string of \<^verbatim>\<open>environ\<close> that starts with the name and
  \<^verbatim>\<open>=\<close>, and returns a pointer into that string, just after the \<^verbatim>\<open>=\<close>. A pointer
  into a string is the string and an offset.
\<close>

type_synonym char_ptr = "string \<times> nat"

definition getenv :: "string list \<Rightarrow> string \<Rightarrow> char_ptr option" where
  "getenv envs name =
     (case find (\<lambda>e. take (Suc (length name)) e = name @ ''='') envs of
        None \<Rightarrow> None
      | Some e \<Rightarrow> Some (e, Suc (length name)))"

definition ptr_sub :: "char_ptr \<Rightarrow> nat \<Rightarrow> char_ptr" where
  "ptr_sub p n = (fst p, snd p - n)"

definition string_at :: "char_ptr \<Rightarrow> string" where
  "string_at p = drop (snd p) (fst p)"

datatype syscall =
    Setreuid
  | Chdir string
  | Mkdir string nat
  | Chown string nat nat
  | Kill int
  | Execve string "string list" "string option list"
      \<comment> \<open>file name, argument vector, and the array \<^verbatim>\<open>env\<close> slot by slot (\<open>None\<close>: a null entry)\<close>

datatype status =
    Replaced              \<comment> \<open>\<^verbatim>\<open>execve\<close> succeeded: the process is now the trusted binary\<close>
  | Returned              \<comment> \<open>the command returned to \<^verbatim>\<open>main\<close>, which exits with 0\<close>
  | Failed failure

text \<open>A run: the system calls made, in order, and how the invocation ended.\<close>

type_synonym run = "syscall list \<times> status"

definition fail :: "failure \<Rightarrow> run" where
  "fail f = ([], Failed f)"

definition after :: "syscall list \<Rightarrow> run \<Rightarrow> run" where
  "after cs r = (cs @ fst r, snd r)"

definition check_then :: "failure + unit \<Rightarrow> run \<Rightarrow> run" where
  "check_then c r = (case c of Inl f \<Rightarrow> fail f | Inr _ \<Rightarrow> r)"

text \<open>The array \<^verbatim>\<open>char *env[3 + ALLOWED_ENV_SIZE]\<close> with its two designated initialisers.\<close>

definition env_init :: "string option list" where
  "env_init = [Some ''PATH=/bin:/usr/bin:/usr/sbin'', Some ''HOME=/root'']
              @ replicate (3 + ALLOWED_ENV_SIZE - 2) None"

text \<open>\<^verbatim>\<open>env[idx++] = p\<close>\<close>

definition env_store :: "string option list \<times> nat \<Rightarrow> string \<Rightarrow> failure + string option list \<times> nat" where
  "env_store st s =
     (if snd st < length (fst st) then Inr ((fst st)[snd st := Some s], Suc (snd st))
      else Inl (Undefined OutOfBoundsWrite))"

text \<open>The loop over \<^verbatim>\<open>ALLOWED_ENV\<close>.\<close>

fun copy_allowed ::
  "string list \<Rightarrow> string list \<Rightarrow> string option list \<times> nat \<Rightarrow> failure + string option list \<times> nat" where
  "copy_allowed envs [] st = Inr st"
| "copy_allowed envs (name # names) st =
     (case getenv envs name of
        None \<Rightarrow> copy_allowed envs names st
      | Some ptr \<Rightarrow>
          (case env_store st (string_at (ptr_sub ptr (length name + 1))) of
             Inl f \<Rightarrow> Inl f
           | Inr st' \<Rightarrow> copy_allowed envs names st'))"

definition build_env :: "build \<Rightarrow> world \<Rightarrow> int \<Rightarrow> failure + string option list \<times> nat" where
  "build_env b w use_selinux_preload =
     (case (if USE_SELINUX b \<and> is_selinux_enabled w > 0 \<and> use_selinux_preload = 1
            then env_store (env_init, 2) ''LD_PRELOAD=libselinux-mock.so''
            else Inr (env_init, 2)) of
        Inl f \<Rightarrow> Inl f
      | Inr st \<Rightarrow> copy_allowed (environ w) ALLOWED_ENV st)"

text \<open>
  \<^verbatim>\<open>execve\<close> reads \<^verbatim>\<open>env\<close> up to its first null entry; an array filled to its last
  slot has none. \<^verbatim>\<open>strdup\<close>, whose result the source does not test, is taken to return
  its copy.
\<close>

definition do_command :: "build \<Rightarrow> world \<Rightarrow> string \<Rightarrow> string list \<Rightarrow> int \<Rightarrow> run" where
  "do_command b w filename argv use_selinux_preload =
     after [Setreuid]
       (case build_env b w use_selinux_preload of
          Inl f \<Rightarrow> fail f
        | Inr st \<Rightarrow>
            after [Execve filename argv (fst st)]
              (if None \<notin> set (fst st) then fail (Undefined UnterminatedVector)
               else if execve_ok w filename then ([], Replaced)
               else fail (Exit ExecFailed)))"

subsection \<open>The commands\<close>

text \<open>
  \<^verbatim>\<open>argv\<close> is the list of the \<^verbatim>\<open>argc\<close> arguments; \<^verbatim>\<open>argv[argc]\<close> is the null pointer
  and the array ends there.
\<close>

definition argv_at :: "string list \<Rightarrow> nat \<Rightarrow> failure + string" where
  "argv_at argv i =
     (if i < length argv then Inr (argv ! i)
      else if i = length argv then Inl (Undefined NullDereference)
      else Inl (Undefined OutOfBoundsRead))"

definition do_chroot :: "build \<Rightarrow> world \<Rightarrow> string list \<Rightarrow> run" where
  "do_chroot b w argv =
     (if int (length argv) < 3 then fail (Exit ArgumentCountError)
      else check_then (check_dir_allowed b w (argv ! 2))
             (do_command b w ''/usr/sbin/chroot'' (drop 1 argv) 0))"

text \<open>The test of the mount destination: \<^verbatim>\<open>strncmp (rootsdir, dest, strlen (rootsdir)) != 0\<close>.\<close>

definition mount_dest :: "build \<Rightarrow> failure + string \<Rightarrow> failure + unit" where
  "mount_dest b dest =
     (case dest of
        Inl f \<Rightarrow> Inl f
      | Inr d \<Rightarrow>
          if strncmp (rootsdir b) d (length (rootsdir b)) \<noteq> 0 then Inl (Exit MountNotAllowed)
          else Inr ())"

definition do_mount :: "build \<Rightarrow> world \<Rightarrow> string list \<Rightarrow> run" where
  "do_mount b w argv =
     (if int (length argv) < 5 then fail (Exit ArgumentCountError)
      else check_then
             (if strncmp ''-t'' (argv ! 2) 2 = 0 \<and> strncmp ''proc'' (argv ! 3) 4 = 0
              then mount_dest b (argv_at argv 5)
              else if strncmp ''-t'' (argv ! 2) 2 = 0 \<and> strncmp ''devpts'' (argv ! 3) 6 = 0
              then (if int (length argv) < 5 then Inl (Exit ArgumentCountError)
                    else mount_dest b (argv_at argv 5))
              else if strncmp ''--bind'' (argv ! 2) 6 = 0 \<and> strncmp ''/dev'' (argv ! 3) 4 = 0
              then mount_dest b (argv_at argv 4)
              else Inl (Exit UnallowedMountType))
             (do_command b w ''/bin/mount'' (drop 1 argv) 0))"

definition do_rm :: "build \<Rightarrow> world \<Rightarrow> string list \<Rightarrow> run" where
  "do_rm b w argv =
     (if int (length argv) < 4 then fail (Exit ArgumentCountError)
      else if strncmp ''-rf'' (argv ! 2) 4 \<noteq> 0 then fail (Exit UnrecognizedOption)
      else check_then (check_dir_allowed b w (argv ! 3))
             (do_command b w ''/bin/rm'' (drop 1 argv) 0))"

definition do_rpm :: "build \<Rightarrow> world \<Rightarrow> string list \<Rightarrow> run" where
  "do_rpm b w argv =
     (if int (length argv) < 4 then fail (Exit ArgumentCountError)
      else if strncmp ''--root'' (argv ! 2) 6 \<noteq> 0 then fail (Exit UnrecognizedOption)
      else check_then (check_dir_allowed b w (argv ! 3))
             (do_command b w ''/bin/rpm'' (drop 1 argv) 0))"

definition do_yum :: "build \<Rightarrow> world \<Rightarrow> string list \<Rightarrow> run" where
  "do_yum b w argv =
     (if int (length argv) < 4 then fail (Exit ArgumentCountError)
      else if strncmp ''--installroot'' (argv ! 2) 6 \<noteq> 0 then fail (Exit UnrecognizedOption)
      else check_then (check_dir_allowed b w (argv ! 3))
             (do_command b w ''/usr/libexec/mock-yum'' (drop 1 argv) 1))"

definition do_umount :: "build \<Rightarrow> world \<Rightarrow> string list \<Rightarrow> run" where
  "do_umount b w argv =
     (if int (length argv) < 3 then fail (Exit ArgumentCountError)
      else check_then (check_dir_allowed b w (argv ! 2))
             (do_command b w ''/bin/umount'' (drop 1 argv) 1))"

text \<open>\<^verbatim>\<open>s[i]\<close> on a string: a byte, the terminator, or nothing the standard defines.\<close>

definition char_at :: "string \<Rightarrow> nat \<Rightarrow> char option" where
  "char_at s i = (if i < length s then Some (s ! i) else if i = length s then Some NUL else None)"

definition do_mknod :: "build \<Rightarrow> world \<Rightarrow> string list \<Rightarrow> run" where
  "do_mknod b w argv =
     (if int (length argv) < 8 then fail (Exit ArgumentCountError)
      else if strncmp (argv ! 2) (rootsdir b) (length (rootsdir b)) \<noteq> 0 then fail (Exit OutsideRoot)
      else if strstr (argv ! 2) ''..'' then fail (Exit TraversalAttempt)
      else (case char_at (argv ! 2) (size_t_sub (length (argv ! 2)) 1) of
              None \<Rightarrow> fail (Undefined OutOfBoundsRead)
            | Some last_c \<Rightarrow>
                if last_c = CHR ''/'' then fail (Exit TrailingSeparator)
                else if strncmp ''-m'' (argv ! 3) 2 \<noteq> 0 then fail (Exit UnrecognizedOption)
                else do_command b w ''/bin/mknod'' (drop 1 argv) 0))"

definition do_unpack :: "build \<Rightarrow> world \<Rightarrow> string list \<Rightarrow> run" where
  "do_unpack b w argv =
     (if int (length argv) < 4 then fail (Exit ArgumentCountError)
      else check_then (check_dir_allowed b w (argv ! 2))
             (after [Chdir (argv ! 2)]
                (if \<not> chdir_ok w (argv ! 2) then fail (Exit ChdirFailed)
                 else do_command b w ''/bin/tar''
                        [''tar'', ''--same-owner'',
                         if strstr (argv ! 3) ''.bz2'' then ''-jxpf''
                         else if strstr (argv ! 3) ''.gz'' then ''-zxpf''
                         else ''-xpf'',
                         argv ! 3] 0)))"

text \<open>
  \<^verbatim>\<open>dirname\<close> as the GNU C library computes it: the path without its last component and
  without the slashes before it; \<^verbatim>\<open>"."\<close> when the path has no slash; when only slashes
  are left, \<^verbatim>\<open>"//"\<close> if they are exactly two and \<^verbatim>\<open>"/"\<close> otherwise.
\<close>

definition strip_slashes :: "string \<Rightarrow> string" where
  "strip_slashes s = rev (dropWhile (\<lambda>c. c = CHR ''/'') (rev s))"

definition dirname :: "string \<Rightarrow> string" where
  "dirname path =
     (let p = strip_slashes path in
      if p = [] then (if path = [] then ''.'' else if path = ''//'' then ''//'' else ''/'')
      else if CHR ''/'' \<notin> set p then ''.''
      else (let q = rev (dropWhile (\<lambda>c. c \<noteq> CHR ''/'') (rev p));
                d = strip_slashes q
            in if d = [] then (if length q = 2 then ''//'' else ''/'') else d))"

text \<open>The mode \<^verbatim>\<open>0750\<close> is octal.\<close>

definition mode_0750 :: nat where
  "mode_0750 = 7 * 64 + 5 * 8 + 0"

definition do_pack :: "build \<Rightarrow> world \<Rightarrow> string list \<Rightarrow> run" where
  "do_pack b w argv =
     (if int (length argv) < 5 then fail (Exit ArgumentCountError)
      else check_then (check_dir_allowed b w (argv ! 2))
             (after [Chdir (argv ! 2)]
                (if \<not> chdir_ok w (argv ! 2) then fail (Exit ChdirFailed)
                 else (let gr = getgrnam w ''mock''; cache_dir = dirname (argv ! 3) in
                       check_then (check_dir_allowed b w cache_dir)
                         (after ([Mkdir cache_dir mode_0750]
                                 @ (case gr of None \<Rightarrow> [] | Some gid \<Rightarrow> [Chown cache_dir 0 gid]))
                            (do_command b w ''/bin/tar''
                               [''tar'', ''--one-file-system'',
                                if strstr (argv ! 3) ''.bz2'' then ''-jcf''
                                else if strstr (argv ! 3) ''.gz'' then ''-zcf''
                                else ''-cf'',
                                argv ! 3, argv ! 4] 0))))))"

text \<open>The loop \<^verbatim>\<open>for (i = 3; i < argc; i++) check_allowed (argv[i])\<close> runs over \<open>drop 3 argv\<close>.\<close>

fun check_each :: "build \<Rightarrow> string list \<Rightarrow> failure + unit" where
  "check_each b [] = Inr ()"
| "check_each b (given # rest) =
     (case check_allowed b given of Inl f \<Rightarrow> Inl f | Inr _ \<Rightarrow> check_each b rest)"

definition do_chown :: "build \<Rightarrow> world \<Rightarrow> string list \<Rightarrow> run" where
  "do_chown b w argv =
     (if int (length argv) < 4 then fail (Exit ArgumentCountError)
      else check_then (check_each b (drop 3 argv))
             (do_command b w ''/bin/chown'' (drop 1 argv) 1))"

definition do_chmod :: "build \<Rightarrow> world \<Rightarrow> string list \<Rightarrow> run" where
  "do_chmod b w argv =
     (if int (length argv) < 4 then fail (Exit ArgumentCountError)
      else check_then (check_each b (drop 3 argv))
             (do_command b w ''/bin/chmod'' (drop 1 argv) 1))"

subsection \<open>The orphan reaper\<close>

definition isdigit :: "char \<Rightarrow> bool" where
  "isdigit c = (c \<in> set ''0123456789'')"

text \<open>What \<^verbatim>\<open>snprintf\<close> writes for \<^verbatim>\<open>%d\<close>.\<close>

fun show_nat :: "nat \<Rightarrow> string" where
  "show_nat n =
     (if n < 10 then [''0123456789'' ! n]
      else show_nat (n div 10) @ [''0123456789'' ! (n mod 10)])"

declare show_nat.simps [simp del]

definition show_int :: "int \<Rightarrow> string" where
  "show_int i = (if i < 0 then CHR ''-'' # show_nat (nat (- i)) else show_nat (nat i))"

definition proc_root_of :: "int \<Rightarrow> string" where
  "proc_root_of pid = ''/proc/'' @ show_int pid @ ''/root''"

text \<open>
  \<^verbatim>\<open>readlink (path, buf, bufsiz)\<close> stores at most \<open>bufsiz\<close> bytes of the target and returns
  how many it stored, or \<open>-1\<close>.
\<close>

definition readlink_buf :: "world \<Rightarrow> string \<Rightarrow> nat \<Rightarrow> int \<times> string" where
  "readlink_buf w path bufsiz =
     (case readlink w path of
        None \<Rightarrow> (- 1, [])
      | Some target \<Rightarrow> (int (length (take bufsiz target)), take bufsiz target))"

text \<open>The conversion of a \<^verbatim>\<open>ssize_t\<close> to \<^verbatim>\<open>size_t\<close> in a mixed comparison.\<close>

definition to_size_t :: "int \<Rightarrow> nat" where
  "to_size_t i = nat (i mod 2 ^ 64)"

text \<open>
  \<^verbatim>\<open>orphanskill_pid\<close>: the fatal error for the helper's own pid, else the signal;
  \<^verbatim>\<open>read_cmdline\<close> and the warnings only print.
\<close>

definition orphanskill_pid :: "world \<Rightarrow> int \<Rightarrow> run" where
  "orphanskill_pid w pid =
     (if pid = getpid w then fail (Exit OwnPid) else ([Kill pid], Returned))"

text \<open>
  The \<^verbatim>\<open>while ((dirent = readdir (dir)))\<close> loop. \<^verbatim>\<open>link_buf\<close> is compared only when
  \<^verbatim>\<open>readlink\<close> has just filled the \<open>chrootdir_len - 1\<close> bytes that are compared.
\<close>

fun scan_proc :: "world \<Rightarrow> string \<Rightarrow> dirent list \<Rightarrow> run" where
  "scan_proc w chrootdir [] = ([], Returned)"
| "scan_proc w chrootdir (d # ds) =
     (if \<not> d_is_dir d then scan_proc w chrootdir ds
      else if d_name d = [] \<or> dropWhile isdigit (d_name d) \<noteq> [] then scan_proc w chrootdir ds
      else
        (let pid = atoi w (d_name d);
             proc_root = proc_root_of pid;
             proc_root_got = int (length proc_root);
             chrootdir_len = length chrootdir + 1
         in if proc_root_got \<le> 0 \<or> proc_root_got \<ge> 64 then scan_proc w chrootdir ds
            else
              (let (link_buf_got, link_buf) = readlink_buf w proc_root chrootdir_len
               in if to_size_t link_buf_got \<noteq> chrootdir_len - 1
                     \<or> take (chrootdir_len - 1) link_buf \<noteq> take (chrootdir_len - 1) chrootdir
                  then scan_proc w chrootdir ds
                  else (case orphanskill_pid w pid of
                          (cs, Returned) \<Rightarrow> after cs (scan_proc w chrootdir ds)
                        | r \<Rightarrow> r))))"

definition do_orphanskill :: "build \<Rightarrow> world \<Rightarrow> string list \<Rightarrow> run" where
  "do_orphanskill b w argv =
     (if int (length argv) < 3 then fail (Exit ArgumentCountError)
      else check_then (check_dir_allowed b w (argv ! 2))
             (if \<not> malloc_ok w then fail (Exit MallocFailed)
              else (case proc_entries w of
                      None \<Rightarrow> fail (Exit OpendirFailed)
                    | Some ds \<Rightarrow> scan_proc w (argv ! 2) ds)))"

text \<open>
  \<^verbatim>\<open>main\<close>: the first comparison that succeeds selects the command; a command that
  returns is followed by \<^verbatim>\<open>exit (0)\<close>.
\<close>

definition main :: "build \<Rightarrow> world \<Rightarrow> string list \<Rightarrow> run" where
  "main b w argv =
     (if int (length argv) < 2 then fail (Exit Usage)
      else if strncmp ''chroot'' (argv ! 1) 6 = 0 then do_chroot b w argv
      else if strncmp ''mount'' (argv ! 1) 5 = 0 then do_mount b w argv
      else if strncmp ''rm'' (argv ! 1) 2 = 0 then do_rm b w argv
      else if strncmp ''umount'' (argv ! 1) 6 = 0 then do_umount b w argv
      else if strncmp ''rpm'' (argv ! 1) 3 = 0 then do_rpm b w argv
      else if strncmp ''mknod'' (argv ! 1) 5 = 0 then do_mknod b w argv
      else if strncmp ''yum'' (argv ! 1) 3 = 0 then do_yum b w argv
      else if strncmp ''unpack'' (argv ! 1) 6 = 0 then do_unpack b w argv
      else if strncmp ''pack'' (argv ! 1) 4 = 0 then do_pack b w argv
      else if strncmp ''chown'' (argv ! 1) 5 = 0 then do_chown b w argv
      else if strncmp ''chmod'' (argv ! 1) 5 = 0 then do_chmod b w argv
      else if strncmp ''orphanskill'' (argv ! 1) 11 = 0 then do_orphanskill b w argv
      else fail (Exit UnrecognizedCommand))"

subsection \<open>The specification's notions\<close>

text \<open>
  The value the caller's environment gives a name, if it sets the name: what follows
  \<^verbatim>\<open>NAME=\<close> in the first string that starts so.
\<close>

definition caller_value :: "string list \<Rightarrow> string \<Rightarrow> string option" where
  "caller_value envs name =
     map_option (drop (Suc (length name)))
       (find (\<lambda>e. take (Suc (length name)) e = name @ ''='') envs)"

definition allowed_entries :: "string list \<Rightarrow> string list \<Rightarrow> string list" where
  "allowed_entries envs names =
     concat (map (\<lambda>name. case caller_value envs name of
                            None \<Rightarrow> []
                          | Some v \<Rightarrow> [name @ ''='' @ v]) names)"

text \<open>
  The sanitised environment in the specification's words: the fixed PATH and HOME, the
  preload entry when MAC is active and the operation opted in, then \<^verbatim>\<open>NAME=value\<close> for
  each allow-listed name the caller set.
\<close>

definition sanitized_environment :: "build \<Rightarrow> world \<Rightarrow> int \<Rightarrow> string list" where
  "sanitized_environment b w opt_in =
     [''PATH=/bin:/usr/bin:/usr/sbin'', ''HOME=/root'']
     @ (if USE_SELINUX b \<and> is_selinux_enabled w > 0 \<and> opt_in = 1
        then [''LD_PRELOAD=libselinux-mock.so''] else [])
     @ allowed_entries (environ w) ALLOWED_ENV"

text \<open>The name of an environment entry: what stands before its first \<^verbatim>\<open>=\<close>.\<close>

definition env_name :: "string \<Rightarrow> string" where
  "env_name e = takeWhile (\<lambda>c. c \<noteq> CHR ''='') e"

text \<open>
  A path names an entry inside the subtree of a root (a root written without a trailing
  separator) when it is the root or continues it with a separator.
\<close>

definition in_subtree :: "string \<Rightarrow> string \<Rightarrow> bool" where
  "in_subtree root p = (p = root \<or> take (Suc (length root)) p = root @ ''/'')"

text \<open>A directory entry of \<^verbatim>\<open>/proc\<close> the scan takes for a process: a directory named by digits.\<close>

definition is_candidate :: "dirent \<Rightarrow> bool" where
  "is_candidate d = (d_is_dir d \<and> d_name d \<noteq> [] \<and> list_all isdigit (d_name d))"

text \<open>The array \<^verbatim>\<open>env\<close> that holds the given entries from slot 0 on, null after them.\<close>

definition env_array :: "string list \<Rightarrow> string option list" where
  "env_array entries = map Some entries @ replicate (3 + ALLOWED_ENV_SIZE - length entries) None"

text \<open>
  The vector \<^verbatim>\<open>execve\<close> reads from the array \<^verbatim>\<open>env\<close>: the entries before the first null
  entry. In an array without a null entry the read runs past the last slot.
\<close>

definition envp_read :: "string option list \<Rightarrow> failure + string list" where
  "envp_read arr =
     (if None \<in> set arr then Inr (map the (takeWhile (\<lambda>e. e \<noteq> None) arr))
      else Inl (Undefined UnterminatedVector))"

subsection \<open>A concrete installation\<close>

text \<open>The decimal value of a string of digits, as \<^verbatim>\<open>atoi\<close> gives it within the range of \<^verbatim>\<open>int\<close>.\<close>

definition decimal :: "string \<Rightarrow> int" where
  "decimal s = foldl (\<lambda>acc c. 10 * acc + (of_char c - 48)) 0 s"

definition example_build :: build where
  "example_build =
     \<lparr>rootsdir = ''/var/lib/mock'', USE_SELINUX = True, after_rootsdir = (\<lambda>_. None)\<rparr>"

definition example_world :: world where
  "example_world =
     \<lparr>lstat = (\<lambda>p. if p = ''/var/lib/mock'' then Some Directory else None),
      chdir_ok = (\<lambda>_. True),
      environ = [''LD_LIBRARY_PATH=/tmp/evil'', ''dist=fc6'', ''PATH=/tmp/evil'',
                 ''http_proxy=http://proxy:3128''],
      is_selinux_enabled = 1,
      execve_ok = (\<lambda>_. True),
      getgrnam = (\<lambda>g. if g = ''mock'' then Some 135 else None),
      malloc_ok = True,
      proc_entries = Some [\<lparr>d_is_dir = True, d_name = ''1''\<rparr>,
                           \<lparr>d_is_dir = True, d_name = ''812''\<rparr>,
                           \<lparr>d_is_dir = True, d_name = ''813''\<rparr>,
                           \<lparr>d_is_dir = False, d_name = ''cpuinfo''\<rparr>,
                           \<lparr>d_is_dir = True, d_name = ''net''\<rparr>],
      atoi = decimal,
      readlink = (\<lambda>p. if p = ''/proc/1/root'' then Some ''/''
                       else if p = ''/proc/812/root'' then Some ''/var/lib/mock''
                       else if p = ''/proc/813/root'' then Some ''/var/lib/mock/sub''
                       else None),
      getpid = 900\<rparr>"

text \<open>The same host when the caller has set all six allow-listed names.\<close>

definition full_environ :: "string list" where
  "full_environ = [''dist=fc6'', ''ftp_proxy=a'', ''http_proxy=b'', ''https_proxy=c'',
                   ''no_proxy=d'', ''PS1=e'']"

text \<open>The same host when the helper itself runs with the chroot as its root.\<close>

definition chrooted_world :: world where
  "chrooted_world = example_world\<lparr>getpid := 812\<rparr>"

section \<open>Properties\<close>

lemmas model_defs =
  do_mount_def do_yum_def do_rm_def do_pack_def do_orphanskill_def do_command_def build_env_def
  check_dir_allowed_def check_allowed_def rootsdir_at_def size_t_sub_def NUL_def
  check_then_def fail_def after_def mount_dest_def argv_at_def
  env_init_def env_store_def ALLOWED_ENV_def ALLOWED_ENV_SIZE_def getenv_def ptr_sub_def string_at_def
  example_build_def example_world_def full_environ_def chrooted_world_def
  dirname_def strip_slashes_def mode_0750_def

subsection \<open>The environment array\<close>

lemma getenv_entry:
  "getenv envs name = Some ptr \<Longrightarrow>
     string_at (ptr_sub ptr (length name + 1)) = name @ ''='' @ the (caller_value envs name)
     \<and> caller_value envs name \<noteq> None"
  apply (auto simp: getenv_def caller_value_def string_at_def ptr_sub_def split: option.splits)
  apply (auto simp: find_Some_iff)
  by (metis append_take_drop_id append.assoc append_Cons append_Nil)

lemma getenv_None: "getenv envs name = None \<Longrightarrow> caller_value envs name = None"
  by (auto simp: getenv_def caller_value_def split: option.splits)

lemma allowed_entries_Cons:
  "allowed_entries envs (name # names) =
     (case caller_value envs name of None \<Rightarrow> [] | Some v \<Rightarrow> [name @ ''='' @ v]) @ allowed_entries envs names"
  by (simp add: allowed_entries_def)

lemma allowed_entries_Nil: "allowed_entries envs [] = []"
  by (simp add: allowed_entries_def)

lemma length_allowed_entries: "length (allowed_entries envs names) \<le> length names"
  by (induction names) (auto simp: allowed_entries_Cons allowed_entries_Nil split: option.splits)

lemma store_slot:
  "0 < k \<Longrightarrow> env_store (map Some pre @ replicate k None, length pre) s
     = Inr (map Some (pre @ [s]) @ replicate (k - 1) None, length (pre @ [s]))"
  by (cases k) (auto simp: env_store_def list_update_append)

lemma copy_allowed_entries:
  "length names \<le> k \<Longrightarrow>
   copy_allowed envs names (map Some pre @ replicate k None, length pre)
     = Inr (map Some (pre @ allowed_entries envs names)
              @ replicate (k - length (allowed_entries envs names)) None,
            length (pre @ allowed_entries envs names))"
proof (induction names arbitrary: pre k)
  case Nil
  then show ?case by (simp add: allowed_entries_Nil)
next
  case (Cons name names)
  show ?case
  proof (cases "getenv envs name")
    case None
    then have cv: "caller_value envs name = None" by (rule getenv_None)
    from Cons.prems have "length names \<le> k" by simp
    from Cons.IH [OF this, of pre] None cv show ?thesis
      by (simp add: allowed_entries_Cons)
  next
    case (Some ptr)
    from getenv_entry [OF Some] obtain v where
      cv: "caller_value envs name = Some v"
      and s: "string_at (ptr_sub ptr (length name + 1)) = name @ ''='' @ v"
      by auto
    from Cons.prems have k: "0 < k" and le: "length names \<le> k - 1" by simp_all
    have "copy_allowed envs (name # names) (map Some pre @ replicate k None, length pre)
           = copy_allowed envs names (map Some (pre @ [name @ ''='' @ v]) @ replicate (k - 1) None,
                                      length (pre @ [name @ ''='' @ v]))"
      using Some s store_slot [OF k, of pre "name @ ''='' @ v"] by simp
    also have "\<dots> = Inr (map Some ((pre @ [name @ ''='' @ v]) @ allowed_entries envs names)
              @ replicate (k - 1 - length (allowed_entries envs names)) None,
            length ((pre @ [name @ ''='' @ v]) @ allowed_entries envs names))"
      by (rule Cons.IH [OF le])
    finally show ?thesis using cv by (simp add: allowed_entries_Cons)
  qed
qed

lemma env_init_eq:
  "env_init = map Some [''PATH=/bin:/usr/bin:/usr/sbin'', ''HOME=/root''] @ replicate 7 None"
  by (simp add: env_init_def ALLOWED_ENV_SIZE_def ALLOWED_ENV_def numeral_eq_Suc)

lemma env_store_preload:
  "env_store (env_init, 2) ''LD_PRELOAD=libselinux-mock.so''
     = Inr (map Some [''PATH=/bin:/usr/bin:/usr/sbin'', ''HOME=/root'', ''LD_PRELOAD=libselinux-mock.so'']
              @ replicate 6 None, 3)"
  by (simp add: env_init_eq env_store_def numeral_eq_Suc)

lemma copy_allowed_from:
  assumes "length names \<le> k" and "idx = length pre"
  shows "copy_allowed envs names (map Some pre @ replicate k None, idx)
     = Inr (map Some (pre @ allowed_entries envs names)
              @ replicate (k - length (allowed_entries envs names)) None,
            length (pre @ allowed_entries envs names))"
  using copy_allowed_entries [OF assms(1), of envs pre] assms(2) by simp

lemma build_env_eq:
  "build_env b w p =
     Inr (map Some (sanitized_environment b w p)
            @ replicate (3 + ALLOWED_ENV_SIZE - length (sanitized_environment b w p)) None,
          length (sanitized_environment b w p))"
proof (cases "USE_SELINUX b \<and> is_selinux_enabled w > 0 \<and> p = 1")
  case True
  have len: "length ALLOWED_ENV \<le> 6" by (simp add: ALLOWED_ENV_def)
  have cap: "3 + ALLOWED_ENV_SIZE = 9" by (simp add: ALLOWED_ENV_SIZE_def ALLOWED_ENV_def)
  have "build_env b w p = copy_allowed (environ w) ALLOWED_ENV
          (map Some [''PATH=/bin:/usr/bin:/usr/sbin'', ''HOME=/root'', ''LD_PRELOAD=libselinux-mock.so'']
              @ replicate 6 None, 3)"
    using True by (simp add: build_env_def env_store_preload)
  also have "\<dots> = Inr (map Some ([''PATH=/bin:/usr/bin:/usr/sbin'', ''HOME=/root'', ''LD_PRELOAD=libselinux-mock.so'']
                          @ allowed_entries (environ w) ALLOWED_ENV)
              @ replicate (6 - length (allowed_entries (environ w) ALLOWED_ENV)) None,
            length ([''PATH=/bin:/usr/bin:/usr/sbin'', ''HOME=/root'', ''LD_PRELOAD=libselinux-mock.so'']
                          @ allowed_entries (environ w) ALLOWED_ENV))"
    by (rule copy_allowed_from [OF len]) simp
  finally show ?thesis using True by (simp add: sanitized_environment_def cap)
next
  case False
  have len: "length ALLOWED_ENV \<le> 7" by (simp add: ALLOWED_ENV_def)
  have cap: "3 + ALLOWED_ENV_SIZE = 9" by (simp add: ALLOWED_ENV_SIZE_def ALLOWED_ENV_def)
  have "build_env b w p = copy_allowed (environ w) ALLOWED_ENV
          (map Some [''PATH=/bin:/usr/bin:/usr/sbin'', ''HOME=/root''] @ replicate 7 None, 2)"
    using False by (auto simp add: build_env_def env_init_eq)
  also have "\<dots> = Inr (map Some ([''PATH=/bin:/usr/bin:/usr/sbin'', ''HOME=/root'']
                          @ allowed_entries (environ w) ALLOWED_ENV)
              @ replicate (7 - length (allowed_entries (environ w) ALLOWED_ENV)) None,
            length ([''PATH=/bin:/usr/bin:/usr/sbin'', ''HOME=/root'']
                          @ allowed_entries (environ w) ALLOWED_ENV))"
    by (rule copy_allowed_from [OF len]) simp
  finally show ?thesis using False by (auto simp add: sanitized_environment_def cap)
qed

lemma env_name_entry: "CHR ''='' \<notin> set name \<Longrightarrow> env_name (name @ ''='' @ v) = name"
  by (induction name) (auto simp: env_name_def)

lemma allowed_entries_names:
  "e \<in> set (allowed_entries envs names) \<Longrightarrow> \<forall>n \<in> set names. CHR ''='' \<notin> set n \<Longrightarrow> env_name e \<in> set names"
proof (induction names)
  case Nil
  then show ?case by (simp add: allowed_entries_Nil)
next
  case (Cons name names)
  show ?case
  proof (cases "e \<in> set (allowed_entries envs names)")
    case True
    with Cons show ?thesis by simp
  next
    case False
    with Cons.prems(1) obtain v where "e = name @ ''='' @ v"
      by (auto simp: allowed_entries_Cons split: option.splits)
    moreover from Cons.prems(2) have "CHR ''='' \<notin> set name" by simp
    ultimately show ?thesis using env_name_entry [of name v] by simp
  qed
qed

lemma sanitized_names:
  "e \<in> set (sanitized_environment b w p) \<Longrightarrow>
     env_name e \<in> {''PATH'', ''HOME'', ''LD_PRELOAD''} \<union> set ALLOWED_ENV"
proof -
  assume e: "e \<in> set (sanitized_environment b w p)"
  have ne: "\<forall>n \<in> set ALLOWED_ENV. CHR ''='' \<notin> set n" by (simp add: ALLOWED_ENV_def)
  have fixed: "env_name ''PATH=/bin:/usr/bin:/usr/sbin'' = ''PATH''"
     "env_name ''HOME=/root'' = ''HOME''"
     "env_name ''LD_PRELOAD=libselinux-mock.so'' = ''LD_PRELOAD''"
    by (simp_all add: env_name_def)
  from e consider "e = ''PATH=/bin:/usr/bin:/usr/sbin''" | "e = ''HOME=/root''"
    | "e = ''LD_PRELOAD=libselinux-mock.so''" | "e \<in> set (allowed_entries (environ w) ALLOWED_ENV)"
    by (auto simp: sanitized_environment_def split: if_splits)
  then show ?thesis
    using fixed allowed_entries_names [OF _ ne] by cases auto
qed

subsection \<open>The scan of the process table\<close>

lemma to_size_t_int: "to_size_t (int n) = n mod 2 ^ 64"
  by (simp add: to_size_t_def nat_mod_distrib nat_power_eq)

lemma to_size_t_minus_one: "to_size_t (- 1) = 2 ^ 64 - 1"
  by (simp add: to_size_t_def)

lemma Suc_mod_neq:
  fixes M :: nat
  assumes "1 < M" and "n < M"
  shows "Suc n mod M \<noteq> n"
proof (cases "Suc n < M")
  case True
  then show ?thesis by simp
next
  case False
  with assms have "Suc n = M" by simp
  then have "Suc n mod M = 0" by simp
  moreover from \<open>Suc n = M\<close> assms(1) have "n \<noteq> 0" by auto
  ultimately show ?thesis by simp
qed

lemma readlink_match:
  assumes "readlink_buf w path (length c + 1) = (got, buf)"
    and "to_size_t got = length c" and "take (length c) buf = c"
  shows "readlink w path = Some c \<and> length c < 2 ^ 64"
proof (cases "readlink w path")
  case None
  with assms(1) have "buf = []" by (simp add: readlink_buf_def)
  with assms(3) have "c = []" by simp
  moreover from None assms(1) have "got = - 1" by (simp add: readlink_buf_def)
  ultimately show ?thesis using assms(2) by (simp add: to_size_t_minus_one)
next
  case (Some t)
  with assms(1) have buf: "buf = take (Suc (length c)) t"
    and got: "got = int (min (length t) (Suc (length c)))"
    by (simp_all add: readlink_buf_def)
  from assms(3) buf have eq: "take (length c) t = c" by (simp add: min_def)
  then have le: "length c \<le> length t"
    by (metis length_take min.cobounded1)
  from assms(2) got have m: "min (length t) (Suc (length c)) mod 2 ^ 64 = length c"
    by (simp only: to_size_t_int)
  have "min (length t) (Suc (length c)) mod 2 ^ 64 < (2 ^ 64 :: nat)"
    by simp
  with m have lt: "length c < 2 ^ 64" by simp
  have "Suc (length c) mod 2 ^ 64 \<noteq> length c"
    by (rule Suc_mod_neq [OF _ lt]) simp
  have "length t = length c"
  proof (rule ccontr)
    assume "length t \<noteq> length c"
    with le have "min (length t) (Suc (length c)) = Suc (length c)" by arith
    with m \<open>Suc (length c) mod 2 ^ 64 \<noteq> length c\<close> show False by simp
  qed
  with eq lt Some show ?thesis by simp
qed

lemma readlink_exact:
  assumes "readlink w path = Some c" and "length c < 2 ^ 64"
  shows "readlink_buf w path (length c + 1) = (int (length c), c)"
    and "to_size_t (int (length c)) = length c"
  using assms by (simp_all add: readlink_buf_def to_size_t_int)

lemma dropWhile_isdigit: "(dropWhile isdigit s \<noteq> []) = (\<not> list_all isdigit s)"
  by (induction s) auto

lemma scan_proc_Cons:
  "scan_proc w c (d # ds) =
     (if is_candidate d \<and> length (proc_root_of (atoi w (d_name d))) < 64
         \<and> readlink w (proc_root_of (atoi w (d_name d))) = Some c \<and> length c < 2 ^ 64
      then (if atoi w (d_name d) = getpid w then fail (Exit OwnPid)
            else after [Kill (atoi w (d_name d))] (scan_proc w c ds))
      else scan_proc w c ds)"
proof -
  define pid where "pid = atoi w (d_name d)"
  define R where "R = scan_proc w c ds"
  define rb where "rb = readlink_buf w (proc_root_of pid) (length c + 1)"
  have len: "0 < length (proc_root_of pid)"
    by (simp add: proc_root_of_def)
  have kill: "(case orphanskill_pid w pid of (cs, Returned) \<Rightarrow> after cs R | r \<Rightarrow> r)
      = (if pid = getpid w then fail (Exit OwnPid) else after [Kill pid] R)"
    by (simp add: orphanskill_pid_def fail_def)
  have step: "scan_proc w c (d # ds) =
     (if \<not> is_candidate d then R
      else if 64 \<le> length (proc_root_of pid) then R
      else if to_size_t (fst rb) \<noteq> length c \<or> take (length c) (snd rb) \<noteq> c then R
      else if pid = getpid w then fail (Exit OwnPid) else after [Kill pid] R)"
    unfolding scan_proc.simps Let_def kill [unfolded pid_def R_def] is_candidate_def
      dropWhile_isdigit R_def rb_def pid_def
    using len [unfolded pid_def] by (simp add: case_prod_beta)
  show ?thesis
  proof (cases "readlink w (proc_root_of pid) = Some c \<and> length c < 2 ^ 64")
    case True
    then have "rb = (int (length c), c)" and "to_size_t (int (length c)) = length c"
      unfolding rb_def using readlink_exact [of w "proc_root_of pid" c] by simp_all
    then show ?thesis
      unfolding step using True by (simp add: pid_def R_def)
  next
    case False
    have "to_size_t (fst rb) \<noteq> length c \<or> take (length c) (snd rb) \<noteq> c"
      using readlink_match [of w "proc_root_of pid" c "fst rb" "snd rb"] False
      unfolding rb_def by auto
    then show ?thesis
      unfolding step using False by (auto simp: pid_def R_def)
  qed
qed

lemma scan_proc_kill:
  "Kill p \<in> set (fst (scan_proc w c ds)) \<Longrightarrow>
     p \<noteq> getpid w \<and> readlink w (proc_root_of p) = Some c
     \<and> (\<exists>d \<in> set ds. is_candidate d \<and> atoi w (d_name d) = p)"
proof (induction ds)
  case Nil
  then show ?case by simp
next
  case (Cons d ds)
  then show ?case
    unfolding scan_proc_Cons
    by (auto simp: fail_def after_def split: if_splits)
qed

lemma scan_proc_status: "snd (scan_proc w c ds) = Returned \<or> snd (scan_proc w c ds) = Failed (Exit OwnPid)"
proof (induction ds)
  case Nil
  then show ?case by simp
next
  case (Cons d ds)
  then show ?case
    unfolding scan_proc_Cons
    by (auto simp: fail_def after_def split: if_splits)
qed

lemma scan_proc_own:
  "d \<in> set ds \<Longrightarrow> is_candidate d \<Longrightarrow> atoi w (d_name d) = getpid w \<Longrightarrow>
   length (proc_root_of (getpid w)) < 64 \<Longrightarrow>
   readlink w (proc_root_of (getpid w)) = Some c \<Longrightarrow> length c < 2 ^ 64 \<Longrightarrow>
   snd (scan_proc w c ds) = Failed (Exit OwnPid)"
proof (induction ds)
  case Nil
  then show ?case by simp
next
  case (Cons e ds)
  then show ?case
    unfolding scan_proc_Cons
    by (auto simp: fail_def after_def split: if_splits)
qed

lemma do_orphanskill_kill:
  "Kill p \<in> set (fst (do_orphanskill b w argv)) \<Longrightarrow>
     p \<noteq> getpid w \<and> readlink w (proc_root_of p) = Some (argv ! 2)"
  by (auto simp: do_orphanskill_def check_then_def fail_def
      split: if_splits sum.splits option.splits dest: scan_proc_kill)

subsection \<open>The executor\<close>

lemma sanitized_length: "length (sanitized_environment b w p) \<le> 3 + ALLOWED_ENV_SIZE"
  using length_allowed_entries [of "environ w" ALLOWED_ENV]
  by (simp add: sanitized_environment_def ALLOWED_ENV_SIZE_def)

lemma sanitized_length_no_preload:
  "\<not> (USE_SELINUX b \<and> is_selinux_enabled w > 0 \<and> p = 1) \<Longrightarrow>
     length (sanitized_environment b w p) < 3 + ALLOWED_ENV_SIZE"
  using length_allowed_entries [of "environ w" ALLOWED_ENV]
  by (auto simp add: sanitized_environment_def ALLOWED_ENV_SIZE_def)

lemma do_command_eq:
  "do_command b w filename argv p =
     ([Setreuid, Execve filename argv (env_array (sanitized_environment b w p))],
      if length (sanitized_environment b w p) = 3 + ALLOWED_ENV_SIZE
      then Failed (Undefined UnterminatedVector)
      else if execve_ok w filename then Replaced else Failed (Exit ExecFailed))"
proof -
  have "None \<notin> set (env_array (sanitized_environment b w p))
        \<longleftrightarrow> length (sanitized_environment b w p) = 3 + ALLOWED_ENV_SIZE"
    using sanitized_length [of b w p] by (auto simp: env_array_def)
  then show ?thesis
    by (simp add: do_command_def build_env_eq after_def fail_def env_array_def)
qed

text \<open>
  The array handed to \<^verbatim>\<open>execve\<close> holds the sanitised environment of the specification
  from slot 0 on and null slots after it; when a null slot is left, that environment is
  the vector \<^verbatim>\<open>execve\<close> reads.
\<close>

lemma do_command_env_array:
  "fst (do_command b w filename argv opt_in) =
     [Setreuid, Execve filename argv (env_array (sanitized_environment b w opt_in))]
   \<and> length (sanitized_environment b w opt_in) \<le> 3 + ALLOWED_ENV_SIZE
   \<and> (\<forall>e \<in> set (sanitized_environment b w opt_in).
        env_name e \<in> {''PATH'', ''HOME'', ''LD_PRELOAD''} \<union> set ALLOWED_ENV)"
  using sanitized_names [of _ b w opt_in] sanitized_length [of b w opt_in]
  by (simp add: do_command_eq)

lemma do_command_env_array_example:
  "fst (do_command example_build example_world ''/usr/libexec/mock-yum'' [''yum''] 1) =
     [Setreuid, Execve ''/usr/libexec/mock-yum'' [''yum'']
        [Some ''PATH=/bin:/usr/bin:/usr/sbin'', Some ''HOME=/root'',
         Some ''LD_PRELOAD=libselinux-mock.so'', Some ''dist=fc6'',
         Some ''http_proxy=http://proxy:3128'', None, None, None, None]]
   \<and> ''LD_LIBRARY_PATH=/tmp/evil'' \<in> set (environ example_world)
   \<and> ''LD_LIBRARY_PATH=/tmp/evil'' \<notin> set (sanitized_environment example_build example_world 1)
   \<and> ''http_proxy=http://proxy:3128'' \<in> set (sanitized_environment example_build example_world 1)
   \<and> env_name ''http_proxy=http://proxy:3128''
        \<in> {''PATH'', ''HOME'', ''LD_PRELOAD''} \<union> set ALLOWED_ENV"
proof -
  have e: "sanitized_environment example_build example_world 1
      = [''PATH=/bin:/usr/bin:/usr/sbin'', ''HOME=/root'',
         ''LD_PRELOAD=libselinux-mock.so'', ''dist=fc6'', ''http_proxy=http://proxy:3128'']"
    by (simp add: sanitized_environment_def allowed_entries_def caller_value_def model_defs)
  have a: "env_array [''PATH=/bin:/usr/bin:/usr/sbin'', ''HOME=/root'',
         ''LD_PRELOAD=libselinux-mock.so'', ''dist=fc6'', ''http_proxy=http://proxy:3128'']
     =  [Some ''PATH=/bin:/usr/bin:/usr/sbin'', Some ''HOME=/root'',
         Some ''LD_PRELOAD=libselinux-mock.so'', Some ''dist=fc6'',
         Some ''http_proxy=http://proxy:3128'', None, None, None, None]"
    by (simp add: env_array_def ALLOWED_ENV_SIZE_def ALLOWED_ENV_def numeral_eq_Suc)
  have m: "''LD_LIBRARY_PATH=/tmp/evil'' \<in> set (environ example_world)"
    by (simp add: example_world_def)
  have p: "''http_proxy=http://proxy:3128'' \<in> set (sanitized_environment example_build example_world 1)"
    unfolding e by simp
  have n: "''LD_LIBRARY_PATH=/tmp/evil'' \<notin> set (sanitized_environment example_build example_world 1)"
    unfolding e by simp
  note t = do_command_env_array
    [of example_build example_world "''/usr/libexec/mock-yum''" "[''yum'']" 1]
  from t have "fst (do_command example_build example_world ''/usr/libexec/mock-yum'' [''yum''] 1) =
     [Setreuid, Execve ''/usr/libexec/mock-yum'' [''yum'']
        [Some ''PATH=/bin:/usr/bin:/usr/sbin'', Some ''HOME=/root'',
         Some ''LD_PRELOAD=libselinux-mock.so'', Some ''dist=fc6'',
         Some ''http_proxy=http://proxy:3128'', None, None, None, None]]"
    unfolding e a by simp
  moreover from t p have "env_name ''http_proxy=http://proxy:3128''
        \<in> {''PATH'', ''HOME'', ''LD_PRELOAD''} \<union> set ALLOWED_ENV"
    by blast
  ultimately show ?thesis using m n p by simp
qed

lemma envp_read_env_array:
  assumes "length entries < 3 + ALLOWED_ENV_SIZE"
  shows "envp_read (env_array entries) = Inr entries"
proof -
  from assms obtain k where k: "3 + ALLOWED_ENV_SIZE - length entries = Suc k"
    by (cases "3 + ALLOWED_ENV_SIZE - length entries") auto
  have "takeWhile (\<lambda>e. e \<noteq> None) (map Some entries @ None # replicate k None) = map Some entries"
    by (induction entries) auto
  then show ?thesis
    by (simp add: envp_read_def env_array_def k comp_def)
qed

lemma do_command_environment_terminated:
  assumes "\<not> (USE_SELINUX b \<and> is_selinux_enabled w > 0 \<and> opt_in = 1)
           \<or> length (allowed_entries (environ w) ALLOWED_ENV) < ALLOWED_ENV_SIZE"
  shows "do_command b w filename argv opt_in =
           ([Setreuid, Execve filename argv (env_array (sanitized_environment b w opt_in))],
            if execve_ok w filename then Replaced else Failed (Exit ExecFailed))"
    and "envp_read (env_array (sanitized_environment b w opt_in))
           = Inr (sanitized_environment b w opt_in)"
proof -
  have len: "length (sanitized_environment b w opt_in) < 3 + ALLOWED_ENV_SIZE"
    using assms sanitized_length_no_preload [of b w opt_in]
    by (auto simp: sanitized_environment_def)
  then show "do_command b w filename argv opt_in =
           ([Setreuid, Execve filename argv (env_array (sanitized_environment b w opt_in))],
            if execve_ok w filename then Replaced else Failed (Exit ExecFailed))"
    by (simp add: do_command_eq)
  from len show "envp_read (env_array (sanitized_environment b w opt_in))
           = Inr (sanitized_environment b w opt_in)"
    by (rule envp_read_env_array)
qed

subsection \<open>Lengths of what \<^verbatim>\<open>snprintf\<close> writes\<close>

lemma show_nat_length: "0 < k \<Longrightarrow> n < 10 ^ k \<Longrightarrow> length (show_nat n) \<le> k"
proof (induction k arbitrary: n)
  case 0
  then show ?case by simp
next
  case (Suc k)
  show ?case
  proof (cases "n < 10")
    case True
    then show ?thesis by (simp add: show_nat.simps)
  next
    case False
    with Suc.prems have k: "0 < k" by (cases k) auto
    from Suc.prems have "n div 10 < 10 ^ k"
      by (simp add: less_mult_imp_div_less mult.commute)
    from Suc.IH [OF k this] False show ?thesis
      by (subst show_nat.simps) simp
  qed
qed

lemma proc_root_length:
  assumes "- (2 ^ 31) \<le> pid" and "pid < 2 ^ 31"
  shows "length (proc_root_of pid) < 64"
proof -
  have "nat \<bar>pid\<bar> < 10 ^ 10" using assms by simp
  then have "length (show_nat (nat \<bar>pid\<bar>)) \<le> 10"
    by (intro show_nat_length) simp_all
  then show ?thesis
    by (auto simp: proc_root_of_def show_int_def abs_if)
qed

subsection \<open>Path checks\<close>

lemma strncmp_prefix: "strncmp (r @ s) r (length r) = 0"
  by (induction r) auto

lemma check_allowed_trailing:
  "check_allowed b given = Inl (Exit TrailingSeparator) \<longleftrightarrow>
     strncmp given (rootsdir b) (length (rootsdir b)) = 0 \<and> \<not> strstr given ''..''
     \<and> rootsdir_at b (size_t_sub (length given) 1) = Some (CHR ''/'')"
  by (auto simp: check_allowed_def split: option.splits)

lemma do_pack_mkdir:
  "Mkdir dir m \<in> set (fst (do_pack b w argv)) \<Longrightarrow>
     dir = dirname (argv ! 3) \<and> m = mode_0750 \<and> lstat w dir = Some Directory"
  by (auto simp: do_pack_def check_then_def fail_def after_def do_command_eq Let_def
      check_dir_allowed_def split: if_splits sum.splits option.splits)

section \<open>The claims\<close>

text \<open>
  Claim C1: every path whose last character is a path separator fails
  \<^verbatim>\<open>check_allowed\<close> with \<open>TrailingSeparator\<close>, whatever its length.
  The function reads \<^verbatim>\<open>rootsdir[strlen (given) - 1]\<close>, a byte of the allowed root and not
  of the path (lemma \<open>check_allowed_trailing\<close>); \<^verbatim>\<open>do_mknod\<close> reads
  \<^verbatim>\<open>argv[2][strlen (argv[2]) - 1]\<close>. With the root \<^verbatim>\<open>/var/lib/mock\<close> the path
  \<^verbatim>\<open>/var/lib/mock/\<close> ends in a separator; the byte read is the root's terminator, and
  the path is accepted, whatever memory holds after the root.
\<close>

theorem check_allowed_accepts_trailing_separator:
  "check_allowed (example_build\<lparr>after_rootsdir := a\<rparr>) ''/var/lib/mock/'' = Inr ()"
  by (simp add: model_defs)

text \<open>
  Claim C2: a mount request of at least 5 arguments is accepted only when arguments 2 and
  3 are exactly \<^verbatim>\<open>-t proc\<close>, \<^verbatim>\<open>-t devpts\<close> or \<^verbatim>\<open>--bind /dev\<close>, and any other pair fails
  with \<open>UnallowedMountType\<close>.
  \<^verbatim>\<open>do_mount\<close> compares with \<^verbatim>\<open>strncmp\<close> over the length of the literal only, so a token
  that merely begins with the literal passes: \<^verbatim>\<open>--bind /dev/../etc\<close> and
  \<^verbatim>\<open>-tnfs procsrv:/x\<close> both reach \<^verbatim>\<open>execve\<close> of \<^verbatim>\<open>/bin/mount\<close>.
\<close>

theorem do_mount_accepts_prefix_tokens:
  "do_mount example_build example_world
     [''mock-helper'', ''mount'', ''--bind'', ''/dev/../etc'', ''/var/lib/mock/etc'']
   = ([Setreuid,
       Execve ''/bin/mount'' [''mount'', ''--bind'', ''/dev/../etc'', ''/var/lib/mock/etc'']
         [Some ''PATH=/bin:/usr/bin:/usr/sbin'', Some ''HOME=/root'', Some ''dist=fc6'',
          Some ''http_proxy=http://proxy:3128'', None, None, None, None, None]],
      Replaced)
   \<and> do_mount example_build example_world
     [''mock-helper'', ''mount'', ''-tnfs'', ''procsrv:/x'', ''/mnt'', ''/var/lib/mock/mnt'']
   = ([Setreuid,
       Execve ''/bin/mount'' [''mount'', ''-tnfs'', ''procsrv:/x'', ''/mnt'', ''/var/lib/mock/mnt'']
         [Some ''PATH=/bin:/usr/bin:/usr/sbin'', Some ''HOME=/root'', Some ''dist=fc6'',
          Some ''http_proxy=http://proxy:3128'', None, None, None, None, None]],
      Replaced)"
  by (simp add: model_defs numeral_eq_Suc)

text \<open>
  Claim C3: an rm request that passes validation (at least 4 arguments, argument 2 equal
  to \<^verbatim>\<open>-rf\<close>, argument 3 a validated directory) makes the helper call \<^verbatim>\<open>execve\<close> on
  \<^verbatim>\<open>/bin/rm\<close> with the whole request from position 1 on: the arguments at positions 4
  and beyond, whatever they are, reach \<^verbatim>\<open>rm\<close> and no check looks at them.
\<close>

theorem do_rm_passes_request_tail:
  assumes "check_dir_allowed b w dir = Inr ()"
  shows "do_rm b w ([prog, cmd, ''-rf'', dir] @ extras) =
           ([Setreuid,
             Execve ''/bin/rm'' ([cmd, ''-rf'', dir] @ extras)
               (env_array (sanitized_environment b w 0))],
            if execve_ok w ''/bin/rm'' then Replaced else Failed (Exit ExecFailed))"
proof -
  have opt: "strncmp ''-rf'' ''-rf'' 4 = 0"
    by (simp add: numeral_eq_Suc)
  have "length (sanitized_environment b w 0) \<noteq> 3 + ALLOWED_ENV_SIZE"
    using sanitized_length_no_preload [of b w 0] by simp
  then show ?thesis
    using assms opt by (simp add: do_rm_def check_then_def do_command_eq)
qed

theorem do_rm_passes_request_tail_witness:
  "check_dir_allowed example_build example_world ''/var/lib/mock'' = Inr ()
   \<and> do_rm example_build example_world
        [''mock-helper'', ''rm'', ''-rf'', ''/var/lib/mock'', ''/etc'', ''/home'']
      = ([Setreuid,
          Execve ''/bin/rm'' [''rm'', ''-rf'', ''/var/lib/mock'', ''/etc'', ''/home'']
            [Some ''PATH=/bin:/usr/bin:/usr/sbin'', Some ''HOME=/root'', Some ''dist=fc6'',
             Some ''http_proxy=http://proxy:3128'', None, None, None, None, None]],
         Replaced)"
proof -
  have h: "check_dir_allowed example_build example_world ''/var/lib/mock'' = Inr ()"
    by (simp add: model_defs)
  have e: "env_array (sanitized_environment example_build example_world 0)
      = [Some ''PATH=/bin:/usr/bin:/usr/sbin'', Some ''HOME=/root'', Some ''dist=fc6'',
             Some ''http_proxy=http://proxy:3128'', None, None, None, None, None]"
    by (simp add: env_array_def sanitized_environment_def allowed_entries_def caller_value_def
        model_defs numeral_eq_Suc)
  have x: "execve_ok example_world ''/bin/rm''" by (simp add: example_world_def)
  show ?thesis
    using h e x
      do_rm_passes_request_tail [OF h, of "''mock-helper''" "''rm''" "[''/etc'', ''/home'']"]
    by simp
qed

text \<open>
  Claim C4: in every invocation that reaches the executor, the environment vector passed
  to \<^verbatim>\<open>execve\<close> holds exactly the fixed PATH entry, the fixed HOME entry, the preload entry
  (only when MAC is enabled and the operation opted in) and one \<^verbatim>\<open>NAME=value\<close> entry for
  each allow-listed name the caller's environment sets, and nothing else.
  The array \<^verbatim>\<open>env\<close> always holds these entries (lemma \<open>do_command_env_array\<close>), and
  they are the vector \<^verbatim>\<open>execve\<close> reads whenever a null slot is left (lemma
  \<open>do_command_environment_terminated\<close>). A yum request in a build with MAC, on a host
  where MAC is enabled, from a caller that sets all six allow-listed names fills the nine
  slots: no null entry ends the vector, and what \<^verbatim>\<open>execve\<close> reads after the ninth entry
  is whatever follows the array in memory.
\<close>

theorem do_yum_unterminated_environment:
  "do_yum example_build (example_world\<lparr>environ := full_environ\<rparr>)
     [''mock-helper'', ''yum'', ''--installroot'', ''/var/lib/mock'', ''install'', ''pkg'']
   = ([Setreuid,
       Execve ''/usr/libexec/mock-yum''
         [''yum'', ''--installroot'', ''/var/lib/mock'', ''install'', ''pkg'']
         [Some ''PATH=/bin:/usr/bin:/usr/sbin'', Some ''HOME=/root'',
          Some ''LD_PRELOAD=libselinux-mock.so'', Some ''dist=fc6'', Some ''ftp_proxy=a'',
          Some ''http_proxy=b'', Some ''https_proxy=c'', Some ''no_proxy=d'', Some ''PS1=e'']],
      Failed (Undefined UnterminatedVector))
   \<and> envp_read
         [Some ''PATH=/bin:/usr/bin:/usr/sbin'', Some ''HOME=/root'',
          Some ''LD_PRELOAD=libselinux-mock.so'', Some ''dist=fc6'', Some ''ftp_proxy=a'',
          Some ''http_proxy=b'', Some ''https_proxy=c'', Some ''no_proxy=d'', Some ''PS1=e'']
       = Inl (Undefined UnterminatedVector)"
  by (simp add: model_defs envp_read_def numeral_eq_Suc)

text \<open>
  Claim C5: a yum request of at least 4 arguments is accepted only when argument 2 is
  exactly \<^verbatim>\<open>--installroot\<close>, and any other token fails with \<open>UnrecognizedOption\<close>.
  \<^verbatim>\<open>do_yum\<close> compares 6 bytes only (the length of \<^verbatim>\<open>--root\<close> in \<^verbatim>\<open>do_rpm\<close>, under the
  same comment), so the token \<^verbatim>\<open>--inst\<close> passes and \<^verbatim>\<open>execve\<close> of the yum wrapper is
  reached.
\<close>

theorem do_yum_accepts_prefix_option:
  "do_yum example_build example_world
     [''mock-helper'', ''yum'', ''--inst'', ''/var/lib/mock'', ''install'', ''pkg'']
   = ([Setreuid,
       Execve ''/usr/libexec/mock-yum'' [''yum'', ''--inst'', ''/var/lib/mock'', ''install'', ''pkg'']
         [Some ''PATH=/bin:/usr/bin:/usr/sbin'', Some ''HOME=/root'',
          Some ''LD_PRELOAD=libselinux-mock.so'', Some ''dist=fc6'',
          Some ''http_proxy=http://proxy:3128'', None, None, None, None]],
      Replaced)"
  by (simp add: model_defs numeral_eq_Suc)

text \<open>
  Claim C6: during a scan of the process table on a validated chroot path, a process is
  sent the signal only when the target of its root link is byte for byte the given path
  (a target that strictly extends the path never matches), and never the helper's own
  process: when a candidate with the helper's own pid matches, the run ends with the
  fatal error and no signal to that pid.
\<close>

theorem do_orphanskill_exact_root:
  "(Kill pid \<in> set (fst (do_orphanskill b w argv)) \<longrightarrow>
      readlink w (proc_root_of pid) = Some (argv ! 2) \<and> pid \<noteq> getpid w)
   \<and> (readlink w (proc_root_of pid) = Some (argv ! 2 @ ext) \<and> ext \<noteq> [] \<longrightarrow>
      Kill pid \<notin> set (fst (do_orphanskill b w argv)))
   \<and> (3 \<le> length argv \<and> check_dir_allowed b w (argv ! 2) = Inr () \<and> malloc_ok w
      \<and> proc_entries w = Some ds \<and> d \<in> set ds \<and> is_candidate d
      \<and> atoi w (d_name d) = getpid w \<and> - (2 ^ 31) \<le> getpid w \<and> getpid w < 2 ^ 31
      \<and> readlink w (proc_root_of (getpid w)) = Some (argv ! 2) \<and> length (argv ! 2) < 2 ^ 64 \<longrightarrow>
      snd (do_orphanskill b w argv) = Failed (Exit OwnPid))"
proof (intro conjI impI)
  assume "Kill pid \<in> set (fst (do_orphanskill b w argv))"
  then show "readlink w (proc_root_of pid) = Some (argv ! 2)" and "pid \<noteq> getpid w"
    using do_orphanskill_kill by blast+
next
  assume "readlink w (proc_root_of pid) = Some (argv ! 2 @ ext) \<and> ext \<noteq> []"
  then show "Kill pid \<notin> set (fst (do_orphanskill b w argv))"
    using do_orphanskill_kill [of pid b w argv] by auto
next
  assume h: "3 \<le> length argv \<and> check_dir_allowed b w (argv ! 2) = Inr () \<and> malloc_ok w
      \<and> proc_entries w = Some ds \<and> d \<in> set ds \<and> is_candidate d
      \<and> atoi w (d_name d) = getpid w \<and> - (2 ^ 31) \<le> getpid w \<and> getpid w < 2 ^ 31
      \<and> readlink w (proc_root_of (getpid w)) = Some (argv ! 2) \<and> length (argv ! 2) < 2 ^ 64"
  then have len: "length (proc_root_of (getpid w)) < 64"
    by (intro proc_root_length) simp_all
  from h len have s: "snd (scan_proc w (argv ! 2) ds) = Failed (Exit OwnPid)"
    by (intro scan_proc_own [of d]) simp_all
  from h s show "snd (do_orphanskill b w argv) = Failed (Exit OwnPid)"
    by (simp add: do_orphanskill_def check_then_def)
qed

theorem do_orphanskill_exact_root_witness:
  "Kill 812 \<in> set (fst (do_orphanskill example_build example_world
                           [''mock-helper'', ''orphanskill'', ''/var/lib/mock'']))
   \<and> readlink example_world (proc_root_of 812) = Some ''/var/lib/mock''
   \<and> 812 \<noteq> getpid example_world
   \<and> readlink example_world (proc_root_of 813) = Some (''/var/lib/mock'' @ ''/sub'')
   \<and> Kill 813 \<notin> set (fst (do_orphanskill example_build example_world
                           [''mock-helper'', ''orphanskill'', ''/var/lib/mock'']))
   \<and> check_dir_allowed example_build chrooted_world ''/var/lib/mock'' = Inr ()
   \<and> is_candidate \<lparr>d_is_dir = True, d_name = ''812''\<rparr>
   \<and> atoi chrooted_world ''812'' = getpid chrooted_world
   \<and> readlink chrooted_world (proc_root_of (getpid chrooted_world)) = Some ''/var/lib/mock''
   \<and> snd (do_orphanskill example_build chrooted_world
             [''mock-helper'', ''orphanskill'', ''/var/lib/mock'']) = Failed (Exit OwnPid)"
proof -
  let ?argv = "[''mock-helper'', ''orphanskill'', ''/var/lib/mock'']"
  have p: "proc_root_of 812 = ''/proc/812/root''" "proc_root_of 813 = ''/proc/813/root''"
    "proc_root_of 1 = ''/proc/1/root''"
    by (simp_all add: proc_root_of_def show_int_def show_nat.simps)
  have a: "decimal ''812'' = 812" "decimal ''813'' = 813" "decimal ''1'' = 1"
    by (simp_all add: decimal_def)
  have w: "proc_entries example_world = Some [\<lparr>d_is_dir = True, d_name = ''1''\<rparr>,
                           \<lparr>d_is_dir = True, d_name = ''812''\<rparr>,
                           \<lparr>d_is_dir = True, d_name = ''813''\<rparr>,
                           \<lparr>d_is_dir = False, d_name = ''cpuinfo''\<rparr>,
                           \<lparr>d_is_dir = True, d_name = ''net''\<rparr>]"
    "malloc_ok example_world" "getpid example_world = 900" "atoi example_world = decimal"
    "readlink example_world ''/proc/1/root'' = Some ''/''"
    "readlink example_world ''/proc/812/root'' = Some ''/var/lib/mock''"
    "readlink example_world ''/proc/813/root'' = Some ''/var/lib/mock/sub''"
    by (simp_all add: example_world_def)
  have c0: "check_dir_allowed example_build example_world ''/var/lib/mock'' = Inr ()"
    by (simp add: model_defs)
  have k: "Kill 812 \<in> set (fst (do_orphanskill example_build example_world ?argv))"
    by (simp add: do_orphanskill_def check_then_def c0 w scan_proc_Cons is_candidate_def
        isdigit_def a p after_def fail_def del: scan_proc.simps)
  have r: "readlink example_world (proc_root_of 813) = Some (?argv ! 2 @ ''/sub'')"
    by (simp add: example_world_def p)
  have c: "check_dir_allowed example_build chrooted_world ''/var/lib/mock'' = Inr ()"
    by (simp add: model_defs)
  have d: "is_candidate \<lparr>d_is_dir = True, d_name = ''812''\<rparr>"
    by (simp add: is_candidate_def isdigit_def)
  have o: "atoi chrooted_world ''812'' = getpid chrooted_world"
    by (simp add: chrooted_world_def example_world_def a)
  have l: "readlink chrooted_world (proc_root_of (getpid chrooted_world)) = Some ''/var/lib/mock''"
    by (simp add: chrooted_world_def example_world_def p)
  have g: "getpid chrooted_world = 812"
    by (simp add: chrooted_world_def)
  have e: "proc_entries chrooted_world = Some [\<lparr>d_is_dir = True, d_name = ''1''\<rparr>,
                           \<lparr>d_is_dir = True, d_name = ''812''\<rparr>,
                           \<lparr>d_is_dir = True, d_name = ''813''\<rparr>,
                           \<lparr>d_is_dir = False, d_name = ''cpuinfo''\<rparr>,
                           \<lparr>d_is_dir = True, d_name = ''net''\<rparr>]"
    by (simp add: chrooted_world_def example_world_def)
  have m: "malloc_ok chrooted_world"
    by (simp add: chrooted_world_def example_world_def)
  note t1 = do_orphanskill_exact_root [of 812 example_build example_world ?argv]
  note t2 = do_orphanskill_exact_root [of 813 example_build example_world ?argv "''/sub''"]
  note t3 = do_orphanskill_exact_root [where b = example_build and w = chrooted_world and argv = ?argv
      and d = "\<lparr>d_is_dir = True, d_name = ''812''\<rparr>"
      and ds = "[\<lparr>d_is_dir = True, d_name = ''1''\<rparr>,
                           \<lparr>d_is_dir = True, d_name = ''812''\<rparr>,
                           \<lparr>d_is_dir = True, d_name = ''813''\<rparr>,
                           \<lparr>d_is_dir = False, d_name = ''cpuinfo''\<rparr>,
                           \<lparr>d_is_dir = True, d_name = ''net''\<rparr>]"]
  from t1 k have "readlink example_world (proc_root_of 812) = Some ''/var/lib/mock''"
    and "812 \<noteq> getpid example_world" by simp_all
  moreover from t2 r have "Kill 813 \<notin> set (fst (do_orphanskill example_build example_world ?argv))"
    by simp
  moreover from t3 c d o l g e m
  have "snd (do_orphanskill example_build chrooted_world ?argv) = Failed (Exit OwnPid)"
    by simp
  ultimately show ?thesis using k r c d o l by simp
qed

text \<open>
  Claim C7: a pack request that passes the argument-count and working-directory checks
  has the parent directory of its output archive validated as contained and then created
  with mode 0750, so that the archiver runs even when that directory does not exist yet.
  \<^verbatim>\<open>do_pack\<close> validates the parent with \<^verbatim>\<open>check_dir_allowed\<close>, which needs \<^verbatim>\<open>lstat\<close> to
  find a directory there, so \<^verbatim>\<open>mkdir\<close> is reached only for a directory that exists (lemma
  \<open>do_pack_mkdir\<close>). With the archive \<^verbatim>\<open>/var/lib/mock/cache/root.tar.gz\<close> and no
  \<^verbatim>\<open>/var/lib/mock/cache\<close>, the run stops after \<^verbatim>\<open>chdir\<close>: neither \<^verbatim>\<open>mkdir\<close> nor
  \<^verbatim>\<open>execve\<close> is called. Which failure ends it depends on the byte that
  \<^verbatim>\<open>check_allowed\<close> finds after the root.
\<close>

theorem do_pack_needs_existing_parent:
  "dirname ''/var/lib/mock/cache/root.tar.gz'' = ''/var/lib/mock/cache''
   \<and> lstat example_world ''/var/lib/mock/cache'' = None
   \<and> fst (do_pack (example_build\<lparr>after_rootsdir := a\<rparr>) example_world
        [''mock-helper'', ''pack'', ''/var/lib/mock'', ''/var/lib/mock/cache/root.tar.gz'', ''.''])
      = [Chdir ''/var/lib/mock'']
   \<and> snd (do_pack (example_build\<lparr>after_rootsdir := a\<rparr>) example_world
        [''mock-helper'', ''pack'', ''/var/lib/mock'', ''/var/lib/mock/cache/root.tar.gz'', ''.''])
      \<in> {Failed (Exit LookupFailed), Failed (Exit TrailingSeparator),
          Failed (Undefined OutOfBoundsRead)}"
  by (simp add: model_defs numeral_eq_Suc split: option.split)

text \<open>
  Claim C8: in a mount request that passes the check of 5 arguments and takes the
  \<^verbatim>\<open>-t proc\<close> or the \<^verbatim>\<open>-t devpts\<close> branch, the read of the destination at position 5
  finds an argument.
  With exactly 5 arguments \<^verbatim>\<open>argv[5]\<close> is the null pointer that ends the vector, and
  \<^verbatim>\<open>strncmp\<close> is called on it.
\<close>

theorem do_mount_reads_null_destination:
  "do_mount (example_build\<lparr>after_rootsdir := a\<rparr>) w [''mock-helper'', ''mount'', ''-t'', ''proc'', ''proc'']
     = ([], Failed (Undefined NullDereference))
   \<and> do_mount (example_build\<lparr>after_rootsdir := a\<rparr>) w [''mock-helper'', ''mount'', ''-t'', ''devpts'', ''devpts'']
     = ([], Failed (Undefined NullDereference))"
  by (simp add: model_defs numeral_eq_Suc)

text \<open>
  Claim C9: the array \<^verbatim>\<open>env\<close> of \<^verbatim>\<open>do_command\<close> always has fewer filled entries than
  its \<open>3 + ALLOWED_ENV_SIZE\<close> slots, so that it ends with a null entry.
  With the preload entry and all six allow-listed names set, PATH, HOME, LD_PRELOAD and
  six copies fill all nine slots: \<^verbatim>\<open>idx\<close> ends at the capacity and the array handed to
  \<^verbatim>\<open>execve\<close> has no null entry.
\<close>

theorem do_command_fills_env_array:
  "build_env example_build (example_world\<lparr>environ := full_environ\<rparr>) 1
     = Inr ([Some ''PATH=/bin:/usr/bin:/usr/sbin'', Some ''HOME=/root'',
             Some ''LD_PRELOAD=libselinux-mock.so'', Some ''dist=fc6'', Some ''ftp_proxy=a'',
             Some ''http_proxy=b'', Some ''https_proxy=c'', Some ''no_proxy=d'', Some ''PS1=e''],
            3 + ALLOWED_ENV_SIZE)
   \<and> snd (do_command example_build (example_world\<lparr>environ := full_environ\<rparr>)
            ''/usr/libexec/mock-yum'' [''yum'', ''--installroot'', ''/var/lib/mock''] 1)
     = Failed (Undefined UnterminatedVector)"
  by (simp add: model_defs numeral_eq_Suc)

text \<open>
  Claim C10: \<^verbatim>\<open>check_allowed\<close> accepts some path that names nothing inside the subtree of
  the allowed root: the root followed by one more character that is not a separator,
  when the result contains no \<^verbatim>\<open>..\<close>, passes the three checks, and it names a sibling of
  the root.
\<close>

theorem check_allowed_accepts_sibling:
  assumes "rootsdir b \<noteq> []" and "last (rootsdir b) \<noteq> CHR ''/''"
    and "\<not> strstr (rootsdir b @ [c]) ''..''" and "c \<noteq> CHR ''/''"
  shows "check_allowed b (rootsdir b @ [c]) = Inr ()
         \<and> \<not> in_subtree (rootsdir b) (rootsdir b @ [c])"
  using assms strncmp_prefix [of "rootsdir b" "[c]"]
  by (simp add: check_allowed_def rootsdir_at_def size_t_sub_def NUL_def in_subtree_def)

theorem check_allowed_accepts_sibling_witness:
  "rootsdir example_build \<noteq> [] \<and> last (rootsdir example_build) \<noteq> CHR ''/''
   \<and> \<not> strstr ''/var/lib/mockx'' ''..'' \<and> CHR ''x'' \<noteq> CHR ''/''
   \<and> check_allowed example_build ''/var/lib/mockx'' = Inr ()
   \<and> \<not> in_subtree ''/var/lib/mock'' ''/var/lib/mockx''"
proof -
  have r: "rootsdir example_build \<noteq> []" and l: "last (rootsdir example_build) \<noteq> CHR ''/''"
    by (simp_all add: example_build_def)
  have h: "\<not> strstr (rootsdir example_build @ [CHR ''x'']) ''..''"
    by (simp add: example_build_def)
  have c: "CHR ''x'' \<noteq> CHR ''/''"
    by simp
  from check_allowed_accepts_sibling [OF r l h c] r l h show ?thesis
    by (simp add: example_build_def)
qed

end
